theory Spec2Isabelle
  imports Complex_Main
begin

section \<open>BlogForge: the proxy handler of \<^verbatim>\<open>api/index.py\<close>\<close>

text \<open>
  The module is one FastAPI application with a health endpoint and one handler,
  \<^verbatim>\<open>generate_blog\<close>, which normalises a topic, renders a prompt, posts it to a
  chat-completion API and translates the outcome.  The embedding makes the environment
  explicit: the process environment is a map, the outbound HTTP call is a function from
  the request to its outcome, and the handler returns the list of outbound calls it
  made together with what it returned or raised.
\<close>

subsection \<open>Python strings\<close>

text \<open>
  A Python \<^verbatim>\<open>str\<close> is a sequence of code points.  A \<^typ>\<open>char\<close> here is one
  code point in the range U+0000 to U+00FF, so a \<^typ>\<open>string\<close> is a Python string
  all of whose code points are below 256.  On this range \<^verbatim>\<open>str.isspace\<close> holds
  for U+0009 to U+000D, U+001C to U+0020, U+0085 and U+00A0, and \<^verbatim>\<open>str.lower\<close>
  maps A to Z and U+00C0 to U+00DE (U+00D7 apart) to the code point 32 above and leaves
  every other code point as it is.
\<close>

definition isspace :: "char \<Rightarrow> bool" where
  "isspace c =
     (let n = (of_char c :: nat)
      in (9 \<le> n \<and> n \<le> 13) \<or> (28 \<le> n \<and> n \<le> 32) \<or> n = 133 \<or> n = 160)"

definition lower_char :: "char \<Rightarrow> char" where
  "lower_char c =
     (let n = (of_char c :: nat)
      in if (65 \<le> n \<and> n \<le> 90) \<or> (192 \<le> n \<and> n \<le> 222 \<and> n \<noteq> 215)
         then char_of (n + 32) else c)"

text \<open>\<^verbatim>\<open>s.lower()\<close>\<close>

definition lower :: "string \<Rightarrow> string" where
  "lower s = map lower_char s"

text \<open>\<^verbatim>\<open>s.strip()\<close>: whitespace is removed at both ends.\<close>

definition strip :: "string \<Rightarrow> string" where
  "strip s = rev (dropWhile isspace (rev (dropWhile isspace s)))"

text \<open>\<^verbatim>\<open>s.startswith(p)\<close>\<close>

definition startswith :: "string \<Rightarrow> string \<Rightarrow> bool" where
  "startswith s p = (take (length p) s = p)"

subsection \<open>Topic normalisation (lines 107 to 113)\<close>

definition prefixes :: "string list" where
  "prefixes = [''write a blog about'', ''write blog about'', ''blog about'',
               ''write about'', ''blog on'', ''create a blog about'']"

text \<open>
  The \<^verbatim>\<open>for p in prefixes\<close> loop: at the first prefix that the lower-cased topic
  starts with, the topic is cut by \<^verbatim>\<open>topic[len(p):].strip()\<close> and the loop is left by
  \<^verbatim>\<open>break\<close>; a prefix that does not match moves on to the next one.
\<close>

fun strip_prefix_loop :: "string list \<Rightarrow> string \<Rightarrow> string" where
  "strip_prefix_loop [] topic = topic"
| "strip_prefix_loop (p # ps) topic =
     (if startswith (lower topic) p then strip (drop (length p) topic)
      else strip_prefix_loop ps topic)"

text \<open>Lines 107 to 113: \<^verbatim>\<open>req.topic.strip()\<close>, then the loop.\<close>

definition normalize_topic :: "string \<Rightarrow> string" where
  "normalize_topic t = strip_prefix_loop prefixes (strip t)"

subsection \<open>Process-wide configuration (lines 18 to 20)\<close>

text \<open>\<^verbatim>\<open>os.environ\<close> is a map from variable names to values.\<close>

type_synonym environ = "string \<rightharpoonup> string"

definition GROQ_API_KEY :: "environ \<Rightarrow> string option" where
  "GROQ_API_KEY env = env ''GROQ_API_KEY''"

definition GROQ_MODEL :: "environ \<Rightarrow> string" where
  "GROQ_MODEL env =
     (case env ''GROQ_MODEL'' of None \<Rightarrow> ''llama-3.3-70b-versatile'' | Some m \<Rightarrow> m)"

definition GROQ_URL :: string where
  "GROQ_URL = ''https://api.groq.com/openai/v1/chat/completions''"

text \<open>
  \<^verbatim>\<open>not GROQ_API_KEY\<close> holds for \<^verbatim>\<open>None\<close> and for the empty string;
  \<^verbatim>\<open>f"{GROQ_API_KEY}"\<close> formats the value of the global.
\<close>

definition falsy :: "string option \<Rightarrow> bool" where
  "falsy k = (case k of None \<Rightarrow> True | Some s \<Rightarrow> s = [])"

fun fstr :: "string option \<Rightarrow> string" where
  "fstr None = ''None''"
| "fstr (Some s) = s"

subsection \<open>The request model (lines 23 to 26)\<close>

record BlogRequest =
  topic :: string
  tone :: string
  length_str :: string

text \<open>
  A request body as the caller sends it, with the field types pydantic accepts: the
  topic is required, tone and length may be omitted (\<open>None\<close>).  Validation builds the
  \<^verbatim>\<open>BlogRequest\<close>, filling the class defaults; the class declares no other
  constraint on any field.
\<close>

record request_body =
  body_topic :: string
  body_tone :: "string option"
  body_length :: "string option"

definition validate :: "request_body \<Rightarrow> BlogRequest" where
  "validate b =
     \<lparr>topic = body_topic b,
      tone = (case body_tone b of None \<Rightarrow> ''informative and friendly'' | Some t \<Rightarrow> t),
      length_str = (case body_length b of None \<Rightarrow> ''1000-1500'' | Some l \<Rightarrow> l)\<rparr>"

subsection \<open>The prompt template (lines 29 to 77)\<close>

fun join_lines :: "string list \<Rightarrow> string" where
  "join_lines [] = []"
| "join_lines [l] = l"
| "join_lines (l # ls) = l @ CHR 0x0A # join_lines ls"

text \<open>Lines 35 to 77 of the source, the part of the template without placeholders.\<close>

definition template_structure :: "string list" where
  "template_structure =
    [''Follow this exact structure:'',
     '''',
     ''---'',
     ''META TITLE: [Write an SEO title 50-60 chars with main keyword]'',
     ''META DESCRIPTION: [Write a compelling meta description 150-160 chars]'',
     ''---'',
     '''',
     ''# [H1 Main Title - include primary keyword]'',
     '''',
     ''[Introduction paragraph - hook the reader, include keyword in first 100 words]'',
     '''',
     ''## [H2 - First main section with keyword variation]'',
     '''',
     ''[2-3 paragraphs]'',
     '''',
     ''## [H2 - Second main section]'',
     '''',
     ''[2-3 paragraphs with bullet points if helpful]'',
     '''',
     ''## [H2 - Third main section]'',
     '''',
     ''[2-3 paragraphs]'',
     '''',
     ''## [H2 - Fourth main section or Tips/Best Practices]'',
     '''',
     ''[2-3 paragraphs or numbered list]'',
     '''',
     ''## Frequently Asked Questions'',
     '''',
     ''**Q: [Relevant question 1]**'',
     ''A: [Clear answer]'',
     '''',
     ''**Q: [Relevant question 2]**'',
     ''A: [Clear answer]'',
     '''',
     ''**Q: [Relevant question 3]**'',
     ''A: [Clear answer]'',
     '''',
     ''## Conclusion'',
     '''',
     ''[Wrap up with key takeaways and a call to action]'',
     '''',
     ''SEO Rules: 1-2% keyword density, use LSI/related terms naturally, short paragraphs, transition words, no keyword stuffing.'']"

text \<open>The f-string: \<^verbatim>\<open>CHR 0x22\<close> is the double quote around the topic.\<close>

definition build_prompt :: "string \<Rightarrow> string \<Rightarrow> string \<Rightarrow> string" where
  "build_prompt topic' tone' length' =
     join_lines
       ([''Write a complete, SEO-optimized blog post about: '' @ [CHR 0x22] @ topic' @ [CHR 0x22],
         '''',
         ''TONE: '' @ tone',
         ''TARGET LENGTH: '' @ length' @ '' words'',
         ''''] @ template_structure)"

subsection \<open>JSON values and Python's operations on them\<close>

text \<open>
  What \<^verbatim>\<open>response.json()\<close> returns.  An object is the parsed \<^verbatim>\<open>dict\<close>, its
  keys looked up with \<^const>\<open>map_of\<close>.
\<close>

datatype jvalue =
    JNull
  | JBool bool
  | JNum rat
  | JStr string
  | JArr "jvalue list"
  | JObj "(string \<times> jvalue) list"

text \<open>
  The exceptions of the handler.  \<open>HTTPException s d\<close> is
  \<^verbatim>\<open>HTTPException(status_code=s, detail=d)\<close>, which FastAPI answers with status
  \<open>s\<close> and the body \<^verbatim>\<open>{"detail": d}\<close>.  A detail is a value, or \<open>StrOf e\<close>, the
  string \<^verbatim>\<open>str(e)\<close> of an exception.
\<close>

datatype exn =
    TimeoutException
  | OtherException string
  | JSONDecodeError string
  | KeyError jvalue
  | IndexError
  | TypeError
  | AttributeError
  | HTTPException int detail
and detail =
    Detail jvalue
  | StrOf exn

text \<open>\<^verbatim>\<open>x.get(k, d)\<close>: only a \<^verbatim>\<open>dict\<close> has the method.\<close>

fun get :: "jvalue \<Rightarrow> string \<Rightarrow> jvalue \<Rightarrow> exn + jvalue" where
  "get (JObj kvs) k d = Inr (case map_of kvs k of None \<Rightarrow> d | Some v \<Rightarrow> v)"
| "get _ k d = Inl AttributeError"

text \<open>\<^verbatim>\<open>x[k]\<close> for a string key \<open>k\<close>.\<close>

fun getitem :: "jvalue \<Rightarrow> string \<Rightarrow> exn + jvalue" where
  "getitem (JObj kvs) k =
     (case map_of kvs k of None \<Rightarrow> Inl (KeyError (JStr k)) | Some v \<Rightarrow> Inr v)"
| "getitem _ k = Inl TypeError"

text \<open>
  \<^verbatim>\<open>x[0]\<close>: the first element of a list, the first character of a string; the
  keys of a parsed object are strings, so \<open>0\<close> is never one of them.
\<close>

fun getitem0 :: "jvalue \<Rightarrow> exn + jvalue" where
  "getitem0 (JArr []) = Inl IndexError"
| "getitem0 (JArr (v # vs)) = Inr v"
| "getitem0 (JStr []) = Inl IndexError"
| "getitem0 (JStr (c # cs)) = Inr (JStr [c])"
| "getitem0 (JObj kvs) = Inl (KeyError (JNum 0))"
| "getitem0 _ = Inl TypeError"

text \<open>Sequencing of steps that may raise.\<close>

fun and_then :: "exn + 'a \<Rightarrow> ('a \<Rightarrow> exn + 'b) \<Rightarrow> exn + 'b" where
  "and_then (Inl e) f = Inl e"
| "and_then (Inr x) f = f x"

subsection \<open>The outbound call (lines 117 to 140)\<close>

record message =
  role :: string
  content :: string

record payload =
  model :: string
  messages :: "message list"
  max_tokens :: int
  temperature :: rat

text \<open>
  One \<^verbatim>\<open>client.post(GROQ_URL, json=payload, headers=headers)\<close> on a client built
  with \<^verbatim>\<open>timeout=60.0\<close>.
\<close>

record post_call =
  url :: string
  json :: payload
  headers :: "(string \<times> string) list"
  timeout :: rat

text \<open>
  What a call comes to: \<open>Timeout\<close> when it raises an \<^verbatim>\<open>httpx.TimeoutException\<close>,
  \<open>Failure d\<close> when it raises any other exception, of description \<open>d\<close>, and
  \<open>Response s b\<close> when it returns a response of status code \<open>s\<close>, on which
  \<^verbatim>\<open>response.json()\<close> returns the value \<open>v\<close> (\<open>b = Inr v\<close>) or raises a decoding
  error of description \<open>d\<close> (\<open>b = Inl d\<close>).
\<close>

datatype outcome =
    Timeout
  | Failure string
  | Response int "string + jvalue"

text \<open>
  \<open>JSONResponse c s h\<close> is a \<^verbatim>\<open>JSONResponse\<close> of content \<open>c\<close>, status code \<open>s\<close>
  and headers \<open>h\<close>; the class gives the status code 200 when none is passed.
\<close>

datatype reply = JSONResponse jvalue int "(string \<times> string) list"

subsection \<open>The handler (lines 102 to 156)\<close>

definition system_content :: string where
  "system_content =
     ''You are a professional SEO content writer with 10+ years of experience creating blogs that rank on Google.''"

text \<open>
  The body of the \<^verbatim>\<open>try\<close> statement, lines 139 to 151, from the outcome of the
  call on: what it returns, or the exception it raises.
\<close>

definition try_body :: "outcome \<Rightarrow> string \<Rightarrow> exn + reply" where
  "try_body out topic' =
     (case out of
        Timeout \<Rightarrow> Inl TimeoutException
      | Failure d \<Rightarrow> Inl (OtherException d)
      | Response status_code body \<Rightarrow>
          (case body of
             Inl d \<Rightarrow> Inl (JSONDecodeError d)
           | Inr data \<Rightarrow>
               if status_code \<noteq> 200
               then and_then (get data ''error'' (JObj [])) (\<lambda>err.
                    and_then (get err ''message'' (JStr ''Groq API error'')) (\<lambda>msg.
                    Inl (HTTPException status_code (Detail msg))))
               else and_then (getitem data ''choices'') (\<lambda>choices.
                    and_then (getitem0 choices) (\<lambda>choice.
                    and_then (getitem choice ''message'') (\<lambda>msg.
                    and_then (getitem msg ''content'') (\<lambda>c.
                    Inr (JSONResponse
                           (JObj [(''content'', c), (''topic'', JStr topic')])
                           200
                           [(''Access-Control-Allow-Origin'', ''*'')])))))))"

text \<open>
  The two \<^verbatim>\<open>except\<close> clauses, lines 153 to 156, in their order: the second one
  catches every \<^verbatim>\<open>Exception\<close>, and \<^verbatim>\<open>HTTPException\<close> is a subclass of it.
\<close>

fun except_clauses :: "exn + reply \<Rightarrow> exn + reply" where
  "except_clauses (Inr r) = Inr r"
| "except_clauses (Inl TimeoutException) =
     Inl (HTTPException 504 (Detail (JStr ''Request timed out. Please try again.'')))"
| "except_clauses (Inl e) = Inl (HTTPException 500 (StrOf e))"

text \<open>
  \<^verbatim>\<open>generate_blog\<close>, given the environment the module was loaded in and the
  network as a function from a call to its outcome.  The result is the list of
  outbound calls made, in order, and the reply returned or the exception raised.
\<close>

definition generate_blog ::
    "environ \<Rightarrow> (post_call \<Rightarrow> outcome) \<Rightarrow> BlogRequest \<Rightarrow> post_call list \<times> (exn + reply)" where
  "generate_blog env post req =
     (if falsy (GROQ_API_KEY env)
      then ([], Inl (HTTPException 500 (Detail (JStr ''API key not configured on server''))))
      else
        let topic' = normalize_topic (topic req);
            prompt = build_prompt topic' (tone req) (length_str req);
            payload' =
              \<lparr>model = GROQ_MODEL env,
               messages = [\<lparr>role = ''system'', content = system_content\<rparr>,
                           \<lparr>role = ''user'', content = prompt\<rparr>],
               max_tokens = 3000,
               temperature = 0.75\<rparr>;
            headers' =
              [(''Authorization'', ''Bearer '' @ fstr (GROQ_API_KEY env)),
               (''Content-Type'', ''application/json'')];
            call = \<lparr>url = GROQ_URL, json = payload', headers = headers', timeout = 60\<rparr>
        in ([call], except_clauses (try_body (post call) topic')))"

text \<open>\<^verbatim>\<open>POST /generate\<close>: the body is validated into a \<^verbatim>\<open>BlogRequest\<close>.\<close>

definition post_generate ::
    "environ \<Rightarrow> (post_call \<Rightarrow> outcome) \<Rightarrow> request_body \<Rightarrow> post_call list \<times> (exn + reply)" where
  "post_generate env post b = generate_blog env post (validate b)"

subsection \<open>The health endpoint (lines 85 to 87)\<close>

definition health :: "environ \<Rightarrow> jvalue" where
  "health env = JObj [(''status'', JStr ''ok''), (''model'', JStr (GROQ_MODEL env))]"

section \<open>Properties\<close>

subsection \<open>Topic normalisation\<close>

lemma strip_Nil: "strip [] = []"
  by (simp add: strip_def)

lemma strip_last: "strip s = [] \<or> \<not> isspace (last (strip s))"
proof -
  define u where "u = dropWhile isspace (rev (dropWhile isspace s))"
  have "u = [] \<or> \<not> isspace (hd u)"
    unfolding u_def using hd_dropWhile [of isspace] by blast
  moreover have "strip s = rev u"
    by (simp add: strip_def u_def)
  ultimately show ?thesis
    by (auto simp: last_rev)
qed

lemma strip_drop:
  assumes "s = [] \<or> \<not> isspace (last s)"
  shows "strip (drop n s) = dropWhile isspace (drop n s)"
proof (cases "drop n s = []")
  case True
  then show ?thesis by (simp add: strip_def)
next
  case False
  define d where "d = drop n s"
  define e where "e = dropWhile isspace d"
  from False have dne: "d \<noteq> []" by (simp add: d_def)
  with assms have nsp: "\<not> isspace (last d)"
    by (auto simp: d_def)
  from dne have mem: "last d \<in> set d" by simp
  from mem nsp have ene: "e \<noteq> []"
    unfolding e_def by auto
  from mem nsp have "last e = last d"
    unfolding e_def by (rule dropWhile_last)
  with nsp ene have "\<not> isspace (hd (rev e))"
    by (simp add: hd_rev)
  with ene have "dropWhile isspace (rev e) = rev e"
    by (cases "rev e") auto
  then show ?thesis
    by (simp add: strip_def d_def e_def)
qed

lemma strip_whitespace:
  assumes "\<forall>c\<in>set s. isspace c"
  shows "strip s = []"
proof -
  from assms have e: "dropWhile isspace s = []" by simp
  show ?thesis unfolding strip_def e by simp
qed

lemma strip_prefix_loop_find:
  "strip_prefix_loop ps t =
     (case find (\<lambda>p. startswith (lower t) p) ps of
        None \<Rightarrow> t
      | Some p \<Rightarrow> strip (drop (length p) t))"
  by (induction ps) auto

lemma lower_take: "startswith (lower s) p \<Longrightarrow> lower (take (length p) s) = p"
  by (simp add: startswith_def lower_def take_map)

lemma strip_prefix_loop_Nil: "strip_prefix_loop prefixes [] = []"
  by (simp add: prefixes_def startswith_def lower_def)

text \<open>
  C2.  Let \<open>s\<close> be the trimmed topic.  When \<open>p\<close> is the first prefix of the list that
  the lower-cased \<open>s\<close> starts with, the first \<open>length p\<close> characters of \<open>s\<close> are
  \<open>p\<close> up to case, and the returned topic is \<open>s\<close> without them and without the
  whitespace that follows; the result is not searched for a prefix again.  When \<open>s\<close>
  starts with none of the six prefixes, the returned topic is \<open>s\<close>.
\<close>

theorem normalize_topic_prefix:
  "(find (\<lambda>p. startswith (lower (strip t)) p) prefixes = Some p \<longrightarrow>
      lower (take (length p) (strip t)) = p \<and>
      normalize_topic t = dropWhile isspace (drop (length p) (strip t))) \<and>
   ((\<forall>p\<in>set prefixes. \<not> startswith (lower (strip t)) p) \<longrightarrow>
      normalize_topic t = strip t)"
proof (intro conjI impI)
  assume f: "find (\<lambda>p. startswith (lower (strip t)) p) prefixes = Some p"
  then have "startswith (lower (strip t)) p"
    by (auto simp: find_Some_iff)
  then show "lower (take (length p) (strip t)) = p"
    by (rule lower_take)
  from f have "normalize_topic t = strip (drop (length p) (strip t))"
    by (simp add: normalize_topic_def strip_prefix_loop_find)
  also have "\<dots> = dropWhile isspace (drop (length p) (strip t))"
    using strip_last [of t] by (rule strip_drop)
  finally show "normalize_topic t = dropWhile isspace (drop (length p) (strip t))" .
next
  assume "\<forall>p\<in>set prefixes. \<not> startswith (lower (strip t)) p"
  then have "find (\<lambda>p. startswith (lower (strip t)) p) prefixes = None"
    by (simp add: find_None_iff)
  then show "normalize_topic t = strip t"
    by (simp add: normalize_topic_def strip_prefix_loop_find)
qed

theorem normalize_topic_prefix_witness:
  "normalize_topic ''  Write a blog about remote work productivity '' = ''remote work productivity'' \<and>
   normalize_topic ''blog about blog on cats'' = ''blog on cats'' \<and>
   normalize_topic ''  cats and dogs  '' = ''cats and dogs''"
proof (intro conjI)
  have "find (\<lambda>p. startswith (lower (strip ''  Write a blog about remote work productivity '')) p)
          prefixes = Some ''write a blog about''"
    by code_simp
  with normalize_topic_prefix
         [of "''  Write a blog about remote work productivity ''" "''write a blog about''"]
  have "normalize_topic ''  Write a blog about remote work productivity '' =
          dropWhile isspace (drop (length ''write a blog about'')
            (strip ''  Write a blog about remote work productivity ''))"
    by blast
  also have "\<dots> = ''remote work productivity''"
    by code_simp
  finally show "normalize_topic ''  Write a blog about remote work productivity '' =
                  ''remote work productivity''" .
next
  have "find (\<lambda>p. startswith (lower (strip ''blog about blog on cats'')) p) prefixes =
          Some ''blog about''"
    by code_simp
  with normalize_topic_prefix [of "''blog about blog on cats''" "''blog about''"]
  have "normalize_topic ''blog about blog on cats'' =
          dropWhile isspace (drop (length ''blog about'') (strip ''blog about blog on cats''))"
    by blast
  also have "\<dots> = ''blog on cats''"
    by code_simp
  finally show "normalize_topic ''blog about blog on cats'' = ''blog on cats''" .
next
  have "\<forall>p\<in>set prefixes. \<not> startswith (lower (strip ''  cats and dogs  '')) p"
    by code_simp
  with normalize_topic_prefix [of "''  cats and dogs  ''"]
  have "normalize_topic ''  cats and dogs  '' = strip ''  cats and dogs  ''"
    by blast
  also have "\<dots> = ''cats and dogs''"
    by code_simp
  finally show "normalize_topic ''  cats and dogs  '' = ''cats and dogs''" .
qed

subsection \<open>The handler\<close>

lemma generate_blog_unconfigured:
  "falsy (GROQ_API_KEY env) \<Longrightarrow>
   generate_blog env post req =
     ([], Inl (HTTPException 500 (Detail (JStr ''API key not configured on server''))))"
  by (simp add: generate_blog_def)

lemma generate_blog_calls:
  "\<not> falsy (GROQ_API_KEY env) \<Longrightarrow>
   fst (generate_blog env post req) =
     [\<lparr>url = GROQ_URL,
       json = \<lparr>model = GROQ_MODEL env,
               messages = [\<lparr>role = ''system'', content = system_content\<rparr>,
                           \<lparr>role = ''user'',
                            content = build_prompt (normalize_topic (topic req)) (tone req)
                                        (length_str req)\<rparr>],
               max_tokens = 3000,
               temperature = 0.75\<rparr>,
       headers = [(''Authorization'', ''Bearer '' @ fstr (GROQ_API_KEY env)),
                  (''Content-Type'', ''application/json'')],
       timeout = 60\<rparr>]"
  by (simp add: generate_blog_def Let_def)

lemma generate_blog_called:
  "c \<in> set (fst (generate_blog env post req)) \<Longrightarrow> \<not> falsy (GROQ_API_KEY env)"
  by (auto simp: generate_blog_def split: if_splits)

lemma generate_blog_result:
  "fst (generate_blog env post req) = [c] \<Longrightarrow>
   snd (generate_blog env post req) =
     except_clauses (try_body (post c) (normalize_topic (topic req)))"
  by (auto simp: generate_blog_def Let_def split: if_splits)

lemma generate_blog_one_call:
  "\<not> falsy (GROQ_API_KEY env) \<Longrightarrow>
   fst (generate_blog env post req) = [hd (fst (generate_blog env post req))]"
  by (simp add: generate_blog_def Let_def)

lemma falsy_unset: "env ''GROQ_API_KEY'' = None \<Longrightarrow> falsy (GROQ_API_KEY env)"
  by (simp add: falsy_def GROQ_API_KEY_def)

lemma configured_example: "\<not> falsy (GROQ_API_KEY [''GROQ_API_KEY'' \<mapsto> ''secret''])"
  by (simp add: falsy_def GROQ_API_KEY_def)

text \<open>
  C1.  The specification has a non-200 upstream status, 429 for example, as the status
  of the response to the caller, with the upstream error message as detail.  The handler builds
  that \<^verbatim>\<open>HTTPException\<close> on line 143, but raises it inside the \<^verbatim>\<open>try\<close>
  statement, whose clause \<^verbatim>\<open>except Exception\<close> on line 155 catches it and raises
  a 500 in its place.  Evaluated on an upstream 429 with an error message, the handler
  raises status 500, with the text of the caught exception as detail.
\<close>

theorem upstream_429_answered_500:
  "snd (post_generate [''GROQ_API_KEY'' \<mapsto> ''secret'']
          (\<lambda>c. Response 429
                 (Inr (JObj [(''error'', JObj [(''message'', JStr ''Rate limit reached'')])])))
          \<lparr>body_topic = ''cats'', body_tone = None, body_length = None\<rparr>) =
   Inl (HTTPException 500 (StrOf (HTTPException 429 (Detail (JStr ''Rate limit reached'')))))"
  by (simp add: post_generate_def generate_blog_def falsy_def GROQ_API_KEY_def Let_def
        try_body_def)

lemma get_cases: "get x k d = Inl AttributeError \<or> (\<exists>v. get x k d = Inr v)"
  by (cases x) simp_all

lemma try_body_non_200:
  assumes "status \<noteq> 200"
  shows "\<exists>e. try_body (Response status (Inr data)) t = Inl e \<and> e \<noteq> TimeoutException"
proof -
  consider "get data ''error'' (JObj []) = Inl AttributeError"
    | err where "get data ''error'' (JObj []) = Inr err"
    using get_cases by blast
  then show ?thesis
  proof cases
    case 1
    with assms show ?thesis by (simp add: try_body_def)
  next
    case 2
    consider "get err ''message'' (JStr ''Groq API error'') = Inl AttributeError"
      | msg where "get err ''message'' (JStr ''Groq API error'') = Inr msg"
      using get_cases by blast
    then show ?thesis
    proof cases
      case 1
      with 2 assms show ?thesis by (simp add: try_body_def)
    next
      case (2 msg)
      with \<open>get data ''error'' (JObj []) = Inr err\<close> assms show ?thesis
        by (simp add: try_body_def)
    qed
  qed
qed

lemma except_clauses_500:
  "e \<noteq> TimeoutException \<Longrightarrow> except_clauses (Inl e) = Inl (HTTPException 500 (StrOf e))"
  by (cases e) simp_all

lemma upstream_status_never_propagated:
  assumes "fst (post_generate env post b) = [c]"
    and "post c = Response status (Inr data)"
    and "status \<noteq> 200"
  shows "\<exists>e. snd (post_generate env post b) = Inl (HTTPException 500 (StrOf e))"
proof -
  from assms(1) have "snd (post_generate env post b) =
      except_clauses (try_body (post c) (normalize_topic (topic (validate b))))"
    unfolding post_generate_def by (rule generate_blog_result)
  moreover from assms(3) obtain e
    where "try_body (Response status (Inr data)) (normalize_topic (topic (validate b))) = Inl e"
      and "e \<noteq> TimeoutException"
    using try_body_non_200 by blast
  ultimately show ?thesis
    using assms(2) by (auto simp: except_clauses_500)
qed

text \<open>
  C3.  When \<^verbatim>\<open>GROQ_API_KEY\<close> is absent from the environment, every
  \<^verbatim>\<open>POST /generate\<close> raises status 500 with the detail
  \<^verbatim>\<open>API key not configured on server\<close>, and the list of outbound calls is empty.
\<close>

theorem missing_api_key:
  "env ''GROQ_API_KEY'' = None \<Longrightarrow>
   post_generate env post b =
     ([], Inl (HTTPException 500 (Detail (JStr ''API key not configured on server''))))"
  by (simp add: post_generate_def generate_blog_unconfigured falsy_unset)

theorem missing_api_key_witness:
  "post_generate Map.empty (\<lambda>c. Timeout)
     \<lparr>body_topic = ''cats'', body_tone = None, body_length = None\<rparr> =
     ([], Inl (HTTPException 500 (Detail (JStr ''API key not configured on server''))))"
  using missing_api_key [of Map.empty] by simp

text \<open>
  C4.  When the one call made returns status 200 and a body that is an object whose
  \<^verbatim>\<open>choices\<close> is a list starting with an object, whose \<^verbatim>\<open>message\<close> is an
  object with a \<^verbatim>\<open>content\<close>, the handler returns a \<^verbatim>\<open>JSONResponse\<close> of status
  200 whose content is that message content, unchanged, and the normalised topic.
\<close>

theorem success_reply:
  assumes "fst (post_generate env post b) = [c]"
    and "post c = Response 200 (Inr (JObj kvs))"
    and "map_of kvs ''choices'' = Some (JArr (JObj ch # rest))"
    and "map_of ch ''message'' = Some (JObj m)"
    and "map_of m ''content'' = Some text"
  shows "snd (post_generate env post b) =
           Inr (JSONResponse
                  (JObj [(''content'', text),
                         (''topic'', JStr (normalize_topic (body_topic b)))])
                  200
                  [(''Access-Control-Allow-Origin'', ''*'')])"
proof -
  from assms(1) have "snd (post_generate env post b) =
      except_clauses (try_body (post c) (normalize_topic (topic (validate b))))"
    unfolding post_generate_def by (rule generate_blog_result)
  with assms(2-) show ?thesis
    by (simp add: try_body_def validate_def)
qed

theorem success_reply_witness:
  "snd (post_generate [''GROQ_API_KEY'' \<mapsto> ''secret'']
          (\<lambda>c. Response 200
                 (Inr (JObj [(''choices'',
                              JArr [JObj [(''message'',
                                           JObj [(''role'', JStr ''assistant''),
                                                 (''content'', JStr ''# Remote work'')])]])])))
          \<lparr>body_topic = ''Write a blog about remote work productivity'',
           body_tone = None, body_length = None\<rparr>) =
   Inr (JSONResponse
          (JObj [(''content'', JStr ''# Remote work''),
                 (''topic'', JStr ''remote work productivity'')])
          200
          [(''Access-Control-Allow-Origin'', ''*'')])"
proof -
  let ?env = "[''GROQ_API_KEY'' \<mapsto> ''secret'']"
  let ?m = "[(''role'', JStr ''assistant''), (''content'', JStr ''# Remote work'')]"
  let ?ch = "[(''message'', JObj ?m)]"
  let ?kvs = "[(''choices'', JArr [JObj ?ch])]"
  let ?post = "\<lambda>c::post_call. Response 200 (Inr (JObj ?kvs))"
  let ?b = "\<lparr>body_topic = ''Write a blog about remote work productivity'',
            body_tone = None, body_length = None\<rparr>"
  have one: "fst (post_generate ?env ?post ?b) = [hd (fst (post_generate ?env ?post ?b))]"
    unfolding post_generate_def using configured_example by (rule generate_blog_one_call)
  have n: "normalize_topic ''Write a blog about remote work productivity'' =
             ''remote work productivity''"
    by code_simp
  have "snd (post_generate ?env ?post ?b) =
          Inr (JSONResponse
                 (JObj [(''content'', JStr ''# Remote work''),
                        (''topic'', JStr (normalize_topic (body_topic ?b)))])
                 200
                 [(''Access-Control-Allow-Origin'', ''*'')])"
    by (rule success_reply [OF one, where kvs = ?kvs and ch = ?ch and rest = "[]" and m = ?m])
       simp_all
  with n show ?thesis by simp
qed

text \<open>
  C5.  With the API key configured and a network on which every call times out, the
  handler makes exactly one call, on a client of timeout 60, and raises status 504 with
  the detail \<^verbatim>\<open>Request timed out. Please try again.\<close>; it does not call again.
\<close>

theorem timeout_504:
  assumes "\<not> falsy (GROQ_API_KEY env)" and "\<forall>c. post c = Timeout"
  shows "\<exists>c. post_generate env post b =
               ([c], Inl (HTTPException 504
                            (Detail (JStr ''Request timed out. Please try again.'')))) \<and>
             timeout c = 60"
  using assms
  by (simp add: post_generate_def generate_blog_def Let_def try_body_def)

theorem timeout_504_witness:
  "snd (post_generate [''GROQ_API_KEY'' \<mapsto> ''secret''] (\<lambda>c. Timeout)
          \<lparr>body_topic = ''cats'', body_tone = None, body_length = None\<rparr>) =
     Inl (HTTPException 504 (Detail (JStr ''Request timed out. Please try again.''))) \<and>
   map timeout
     (fst (post_generate [''GROQ_API_KEY'' \<mapsto> ''secret''] (\<lambda>c. Timeout)
             \<lparr>body_topic = ''cats'', body_tone = None, body_length = None\<rparr>)) = [60]"
proof -
  have "\<forall>c::post_call. (\<lambda>c. Timeout) c = Timeout" by simp
  from timeout_504 [OF configured_example this,
         of "\<lparr>body_topic = ''cats'', body_tone = None, body_length = None\<rparr>"]
  obtain c where
    r: "post_generate [''GROQ_API_KEY'' \<mapsto> ''secret''] (\<lambda>c. Timeout)
          \<lparr>body_topic = ''cats'', body_tone = None, body_length = None\<rparr> =
        ([c], Inl (HTTPException 504
                     (Detail (JStr ''Request timed out. Please try again.''))))"
    and t: "timeout c = 60"
    by blast
  show ?thesis
    unfolding r using t by simp
qed

text \<open>
  C6.  When \<^verbatim>\<open>response.json()\<close> raises a decoding error on the body of the
  response, the handler raises status 500 with the text of that error as detail,
  whatever the status code of the response: the body is decoded on line 141, the status
  code is read on line 142.
\<close>

theorem unparseable_body_500:
  assumes "fst (post_generate env post b) = [c]"
    and "post c = Response status (Inl d)"
  shows "snd (post_generate env post b) = Inl (HTTPException 500 (StrOf (JSONDecodeError d)))"
proof -
  from assms(1) have "snd (post_generate env post b) =
      except_clauses (try_body (post c) (normalize_topic (topic (validate b))))"
    unfolding post_generate_def by (rule generate_blog_result)
  with assms(2) show ?thesis
    by (simp add: try_body_def)
qed

theorem unparseable_body_500_witness:
  "snd (post_generate [''GROQ_API_KEY'' \<mapsto> ''secret'']
          (\<lambda>c. Response 200 (Inl ''Expecting value: line 1 column 1 (char 0)''))
          \<lparr>body_topic = ''cats'', body_tone = None, body_length = None\<rparr>) =
     Inl (HTTPException 500
            (StrOf (JSONDecodeError ''Expecting value: line 1 column 1 (char 0)''))) \<and>
   snd (post_generate [''GROQ_API_KEY'' \<mapsto> ''secret'']
          (\<lambda>c. Response 502 (Inl ''Expecting value: line 1 column 1 (char 0)''))
          \<lparr>body_topic = ''cats'', body_tone = None, body_length = None\<rparr>) =
     Inl (HTTPException 500
            (StrOf (JSONDecodeError ''Expecting value: line 1 column 1 (char 0)'')))"
proof -
  let ?env = "[''GROQ_API_KEY'' \<mapsto> ''secret'']"
  let ?b = "\<lparr>body_topic = ''cats'', body_tone = None, body_length = None\<rparr>"
  let ?d = "''Expecting value: line 1 column 1 (char 0)''"
  have one: "fst (post_generate ?env post ?b) = [hd (fst (post_generate ?env post ?b))]" for post
    unfolding post_generate_def using configured_example by (rule generate_blog_one_call)
  have "snd (post_generate ?env (\<lambda>c. Response 200 (Inl ?d)) ?b) =
          Inl (HTTPException 500 (StrOf (JSONDecodeError ?d)))"
    by (rule unparseable_body_500 [OF one]) simp
  moreover have "snd (post_generate ?env (\<lambda>c. Response 502 (Inl ?d)) ?b) =
          Inl (HTTPException 500 (StrOf (JSONDecodeError ?d)))"
    by (rule unparseable_body_500 [OF one]) simp
  ultimately show ?thesis by simp
qed

text \<open>
  C8.  \<^verbatim>\<open>GET /health\<close> returns the status \<^verbatim>\<open>ok\<close> and the model identifier, the
  value of \<^verbatim>\<open>GROQ_MODEL\<close> in the environment or else the default, whatever the
  value \<open>k\<close> of \<^verbatim>\<open>GROQ_API_KEY\<close>, set or unset.
\<close>

theorem health_reply:
  "health (env(''GROQ_API_KEY'' := k)) =
     JObj [(''status'', JStr ''ok''),
           (''model'', JStr (case env ''GROQ_MODEL'' of
                               None \<Rightarrow> ''llama-3.3-70b-versatile'' | Some m \<Rightarrow> m))]"
  by (simp add: health_def GROQ_MODEL_def)

text \<open>
  C9.  The payload of every outbound call holds the configured model identifier, exactly
  two messages in this order, the fixed system message and a user message whose content
  is the prompt built from the normalised topic, \<^verbatim>\<open>max_tokens\<close> 3000 and
  \<^verbatim>\<open>temperature\<close> 0.75.
\<close>

theorem upstream_payload:
  assumes "c \<in> set (fst (post_generate env post b))"
  shows "json c =
           \<lparr>model = GROQ_MODEL env,
            messages = [\<lparr>role = ''system'', content = system_content\<rparr>,
                        \<lparr>role = ''user'',
                         content = build_prompt (normalize_topic (body_topic b))
                                     (tone (validate b)) (length_str (validate b))\<rparr>],
            max_tokens = 3000,
            temperature = 0.75\<rparr>"
proof -
  from assms have "\<not> falsy (GROQ_API_KEY env)"
    unfolding post_generate_def by (rule generate_blog_called)
  from generate_blog_calls [OF this, of post "validate b"] assms show ?thesis
    by (simp add: post_generate_def validate_def)
qed

theorem upstream_payload_witness:
  "map (\<lambda>c. (model (json c), map role (messages (json c)), max_tokens (json c),
              temperature (json c)))
     (fst (post_generate [''GROQ_API_KEY'' \<mapsto> ''secret''] (\<lambda>c. Timeout)
             \<lparr>body_topic = ''cats'', body_tone = None, body_length = None\<rparr>)) =
   [(''llama-3.3-70b-versatile'', [''system'', ''user''], 3000, 3 / 4)]"
proof -
  let ?env = "[''GROQ_API_KEY'' \<mapsto> ''secret'']"
  let ?b = "\<lparr>body_topic = ''cats'', body_tone = None, body_length = None\<rparr>"
  let ?calls = "fst (post_generate ?env (\<lambda>c. Timeout) ?b)"
  obtain c where one: "?calls = [c]"
    unfolding post_generate_def
    using generate_blog_one_call [OF configured_example] by blast
  then have "c \<in> set ?calls"
    by simp
  from upstream_payload [OF this] have "json c =
      \<lparr>model = GROQ_MODEL ?env,
       messages = [\<lparr>role = ''system'', content = system_content\<rparr>,
                   \<lparr>role = ''user'',
                    content = build_prompt (normalize_topic (body_topic ?b))
                                (tone (validate ?b)) (length_str (validate ?b))\<rparr>],
       max_tokens = 3000,
       temperature = 0.75\<rparr>" .
  then have "(model (json c), map role (messages (json c)), max_tokens (json c),
              temperature (json c)) =
      (''llama-3.3-70b-versatile'', [''system'', ''user''], 3000, 3 / 4)"
    by (simp add: GROQ_MODEL_def)
  then show ?thesis
    unfolding one by simp
qed

lemma join_lines_Cons:
  "ls \<noteq> [] \<Longrightarrow> join_lines (l # ls) = l @ CHR 0x0A # join_lines ls"
  by (cases ls) simp_all

lemma template_structure_not_Nil: "template_structure \<noteq> []"
  by (simp add: template_structure_def)

lemma build_prompt_text:
  "build_prompt topic' tone' length' =
     ''Write a complete, SEO-optimized blog post about: '' @ [CHR 0x22] @ topic' @ [CHR 0x22] @
     [CHR 0x0A, CHR 0x0A] @
     ''TONE: '' @ tone' @ [CHR 0x0A] @
     ''TARGET LENGTH: '' @ length' @ '' words'' @ [CHR 0x0A, CHR 0x0A] @
     join_lines template_structure"
  by (simp add: build_prompt_def join_lines_Cons template_structure_not_Nil)

text \<open>
  C10.  In every outbound call the user message is the text of the prompt template with
  the tone after \<^verbatim>\<open>TONE: \<close> and the length between \<^verbatim>\<open>TARGET LENGTH: \<close> and
  \<^verbatim>\<open> words\<close>, where the tone and the length are those of the request body, and
  \<^verbatim>\<open>informative and friendly\<close> and \<^verbatim>\<open>1000-1500\<close> where the body omits them.
\<close>

theorem default_tone_and_length:
  assumes "c \<in> set (fst (post_generate env post b))"
  shows "map content (messages (json c)) =
           [system_content,
            ''Write a complete, SEO-optimized blog post about: '' @ [CHR 0x22] @
            normalize_topic (body_topic b) @ [CHR 0x22] @
            [CHR 0x0A, CHR 0x0A] @
            ''TONE: '' @
            (case body_tone b of None \<Rightarrow> ''informative and friendly'' | Some t \<Rightarrow> t) @
            [CHR 0x0A] @
            ''TARGET LENGTH: '' @
            (case body_length b of None \<Rightarrow> ''1000-1500'' | Some l \<Rightarrow> l) @
            '' words'' @ [CHR 0x0A, CHR 0x0A] @
            join_lines template_structure]"
proof -
  from assms have "\<not> falsy (GROQ_API_KEY env)"
    unfolding post_generate_def by (rule generate_blog_called)
  from generate_blog_calls [OF this, of post "validate b"] assms
  have "map content (messages (json c)) =
          [system_content,
           build_prompt (normalize_topic (body_topic b))
             (case body_tone b of None \<Rightarrow> ''informative and friendly'' | Some t \<Rightarrow> t)
             (case body_length b of None \<Rightarrow> ''1000-1500'' | Some l \<Rightarrow> l)]"
    by (simp add: post_generate_def validate_def)
  then show ?thesis
    unfolding build_prompt_text .
qed

theorem default_tone_and_length_witness:
  "map (\<lambda>c. map content (messages (json c)))
     (fst (post_generate [''GROQ_API_KEY'' \<mapsto> ''secret''] (\<lambda>c. Timeout)
             \<lparr>body_topic = ''cats'', body_tone = None, body_length = None\<rparr>)) =
   [[system_content,
     ''Write a complete, SEO-optimized blog post about: '' @ [CHR 0x22] @ ''cats'' @
     [CHR 0x22] @ [CHR 0x0A, CHR 0x0A] @
     ''TONE: informative and friendly'' @ [CHR 0x0A] @
     ''TARGET LENGTH: 1000-1500 words'' @ [CHR 0x0A, CHR 0x0A] @
     join_lines template_structure]]"
proof -
  let ?env = "[''GROQ_API_KEY'' \<mapsto> ''secret'']"
  let ?b = "\<lparr>body_topic = ''cats'', body_tone = None, body_length = None\<rparr>"
  let ?calls = "fst (post_generate ?env (\<lambda>c. Timeout) ?b)"
  obtain c where one: "?calls = [c]"
    unfolding post_generate_def
    using generate_blog_one_call [OF configured_example] by blast
  then have "c \<in> set ?calls"
    by simp
  from default_tone_and_length [OF this]
  have "map content (messages (json c)) =
      [system_content,
       ''Write a complete, SEO-optimized blog post about: '' @ [CHR 0x22] @
       normalize_topic ''cats'' @ [CHR 0x22] @ [CHR 0x0A, CHR 0x0A] @
       ''TONE: informative and friendly'' @ [CHR 0x0A] @
       ''TARGET LENGTH: 1000-1500 words'' @ [CHR 0x0A, CHR 0x0A] @
       join_lines template_structure]"
    by simp
  moreover have "normalize_topic ''cats'' = ''cats''"
    by code_simp
  ultimately have "map content (messages (json c)) =
      [system_content,
       ''Write a complete, SEO-optimized blog post about: '' @ [CHR 0x22] @ ''cats'' @
       [CHR 0x22] @ [CHR 0x0A, CHR 0x0A] @
       ''TONE: informative and friendly'' @ [CHR 0x0A] @
       ''TARGET LENGTH: 1000-1500 words'' @ [CHR 0x0A, CHR 0x0A] @
       join_lines template_structure]"
    by simp
  then show ?thesis
    unfolding one by simp
qed

text \<open>
  C7.  A topic that is empty or consists of whitespace only is not rejected: with the
  API key configured, the handler makes its one call, the user message being the prompt
  built from the empty topic, and answers by the outcome of that call as for any topic.
\<close>

theorem blank_topic_not_rejected:
  assumes "\<not> falsy (GROQ_API_KEY env)" and "\<forall>ch\<in>set (body_topic b). isspace ch"
  shows "\<exists>c. post_generate env post b = ([c], except_clauses (try_body (post c) [])) \<and>
             json c =
               \<lparr>model = GROQ_MODEL env,
                messages = [\<lparr>role = ''system'', content = system_content\<rparr>,
                            \<lparr>role = ''user'',
                             content = build_prompt [] (tone (validate b))
                                         (length_str (validate b))\<rparr>],
                max_tokens = 3000,
                temperature = 0.75\<rparr>"
proof -
  from assms(2) have "strip (body_topic b) = []"
    by (rule strip_whitespace)
  then have "normalize_topic (topic (validate b)) = []"
    by (simp add: normalize_topic_def validate_def strip_prefix_loop_Nil)
  with assms(1) show ?thesis
    by (simp add: post_generate_def generate_blog_def Let_def)
qed

theorem blank_topic_not_rejected_witness:
  "map (\<lambda>c. content (last (messages (json c))))
     (fst (post_generate [''GROQ_API_KEY'' \<mapsto> ''secret''] (\<lambda>c. Timeout)
             \<lparr>body_topic = ''   '', body_tone = None, body_length = None\<rparr>)) =
   [build_prompt [] ''informative and friendly'' ''1000-1500'']"
proof -
  let ?b = "\<lparr>body_topic = ''   '', body_tone = None, body_length = None\<rparr>"
  have "\<forall>ch\<in>set (body_topic ?b). isspace ch"
    by (simp add: isspace_def)
  from blank_topic_not_rejected [OF configured_example this, of "\<lambda>c. Timeout"]
  obtain c where
    r: "post_generate [''GROQ_API_KEY'' \<mapsto> ''secret''] (\<lambda>c. Timeout) ?b =
          ([c], except_clauses (try_body Timeout []))"
    and j: "json c =
              \<lparr>model = GROQ_MODEL [''GROQ_API_KEY'' \<mapsto> ''secret''],
               messages = [\<lparr>role = ''system'', content = system_content\<rparr>,
                           \<lparr>role = ''user'',
                            content = build_prompt [] (tone (validate ?b))
                                        (length_str (validate ?b))\<rparr>],
               max_tokens = 3000,
               temperature = 0.75\<rparr>"
    by blast
  from j have "content (last (messages (json c))) =
                 build_prompt [] ''informative and friendly'' ''1000-1500''"
    by (simp add: validate_def)
  then show ?thesis
    unfolding r by simp
qed

end
